theory Spec2Isabelle
  imports Complex_Main "HOL-Library.Sublist"
begin

section \<open>The external world of \<open>real_hardware_demo.py\<close>\<close>

text \<open>
  The script drives three external libraries: the ChipWhisperer SDK (scope and target),
  numpy and matplotlib. The SDK and matplotlib are modelled as an oracle over an abstract
  world \<open>'w\<close>: every call takes the world, returns either an exception or a value, and
  a new world. numpy is modelled by its mathematical meaning in exact real arithmetic
  (no rounding), with \<open>NaN\<close> for the quotient \<open>0 / 0\<close> and \<open>ValueError\<close>
  where numpy raises. The type \<open>exn\<close> stands for the subclasses of \<open>Exception\<close>,
  the ones an \<open>except Exception\<close> clause catches.
\<close>

type_synonym trace = "real list"

datatype exn = AttributeError | ValueError | LibraryError nat

datatype npfloat = Fin real | NaN

text \<open>What \<open>generate_plot\<close> hands to matplotlib for the second chart: the mean trace,
  the standard deviation band and the highlighted sample indices.\<close>

record statistics_chart =
  chart_mean :: "real list"
  chart_std :: "real list"
  chart_points :: "nat list"

datatype call =
    CwScope
  | CwTarget
  | DefaultSetup
  | TargetFlush
  | SimpleserialWrite char "nat list"
  | TimeSleep real
  | TargetRead
  | ScopeArm
  | ScopeCapture
  | GetLastTrace
  | ScopeDis
  | TargetDis
  | NpCorrcoef nat nat
  | PlotTraces "trace list"
  | PlotStatistics "statistics_chart option"
  | SaveFigure string

datatype reply =
    Raises exn
  | Returns
  | ReturnsBytes string
  | ReturnsTrace "trace option"
  | ReturnsFloat npfloat

record 'w extern =
  cw_scope :: "'w \<Rightarrow> (exn + unit) \<times> 'w"
  cw_target :: "'w \<Rightarrow> (exn + unit) \<times> 'w"
  default_setup :: "'w \<Rightarrow> (exn + unit) \<times> 'w"
  target_flush :: "'w \<Rightarrow> (exn + unit) \<times> 'w"
  simpleserial_write :: "char \<Rightarrow> nat list \<Rightarrow> 'w \<Rightarrow> (exn + unit) \<times> 'w"
  time_sleep :: "real \<Rightarrow> 'w \<Rightarrow> (exn + unit) \<times> 'w"
  target_read :: "'w \<Rightarrow> (exn + string) \<times> 'w"
  scope_arm :: "'w \<Rightarrow> (exn + unit) \<times> 'w"
  scope_capture :: "'w \<Rightarrow> (exn + unit) \<times> 'w"
  get_last_trace :: "'w \<Rightarrow> (exn + trace option) \<times> 'w"
  scope_dis :: "'w \<Rightarrow> (exn + unit) \<times> 'w"
  target_dis :: "'w \<Rightarrow> (exn + unit) \<times> 'w"
  plot_traces :: "trace list \<Rightarrow> 'w \<Rightarrow> (exn + unit) \<times> 'w"
  plot_statistics :: "statistics_chart option \<Rightarrow> 'w \<Rightarrow> (exn + unit) \<times> 'w"
  save_figure :: "string \<Rightarrow> 'w \<Rightarrow> (exn + unit) \<times> 'w"

section \<open>The demo object\<close>

text \<open>
  \<open>scope\<close>, \<open>target\<close>, \<open>connected\<close> and \<open>traces\<close> are the attributes of
  \<open>RealChipWhispererDemo\<close>. \<open>world\<close> is the state of the external libraries. The three
  logs are observations of the run and are never read by the program: \<open>io_log\<close> records
  every external call with its reply, \<open>capture_log\<close> every call of
  \<open>capture_real_trace\<close> with its payload and result, \<open>step_log\<close> every step of the
  top-level sequence with its outcome.
\<close>

datatype handle = Handle

datatype step = Connect | Probe | Capture | Analyze | Plot | Disconnect

datatype outcome = Succeeded | Failed | Raised exn

record 'w demo =
  scope :: "handle option"
  target :: "handle option"
  connected :: bool
  traces :: "trace list"
  world :: 'w
  io_log :: "(call \<times> reply) list"
  capture_log :: "(nat list \<times> trace option) list"
  step_log :: "(step \<times> outcome) list"

definition init :: "'w \<Rightarrow> 'w demo" where
  "init w = \<lparr>scope = None, target = None, connected = False, traces = [],
             world = w, io_log = [], capture_log = [], step_log = []\<rparr>"

subsection \<open>Sequencing, exceptions and external calls\<close>

definition ret :: "'a \<Rightarrow> 'w demo \<Rightarrow> (exn + 'a) \<times> 'w demo" where
  "ret a s = (Inr a, s)"

definition and_then ::
  "('w demo \<Rightarrow> (exn + 'a) \<times> 'w demo) \<Rightarrow> ('a \<Rightarrow> 'w demo \<Rightarrow> (exn + 'b) \<times> 'w demo)
     \<Rightarrow> 'w demo \<Rightarrow> (exn + 'b) \<times> 'w demo" where
  "and_then m f s = (case m s of (Inl e, s') \<Rightarrow> (Inl e, s') | (Inr a, s') \<Rightarrow> f a s')"

text \<open>\<open>try: body  except Exception: handler\<close>, where the handler returns a value.\<close>

definition try_except ::
  "('w demo \<Rightarrow> (exn + 'a) \<times> 'w demo) \<Rightarrow> 'a \<Rightarrow> 'w demo \<Rightarrow> 'a \<times> 'w demo" where
  "try_except body handler s = (case body s of (Inl e, s') \<Rightarrow> (handler, s') | (Inr a, s') \<Rightarrow> (a, s'))"

definition extcall ::
  "call \<Rightarrow> ('a \<Rightarrow> reply) \<Rightarrow> ('w \<Rightarrow> (exn + 'a) \<times> 'w) \<Rightarrow> 'w demo \<Rightarrow> (exn + 'a) \<times> 'w demo" where
  "extcall c shw f s =
     (case f (world s) of
        (r, w') \<Rightarrow> (r, s\<lparr>world := w',
                          io_log := io_log s @ [(c, case r of Inl e \<Rightarrow> Raises e | Inr a \<Rightarrow> shw a)]\<rparr>))"

text \<open>An attribute access \<open>self.scope.m\<close> or \<open>self.target.m\<close> raises
  \<open>AttributeError\<close> while the attribute is still \<open>None\<close>.\<close>

definition attr :: "('w demo \<Rightarrow> handle option) \<Rightarrow> 'w demo \<Rightarrow> (exn + unit) \<times> 'w demo" where
  "attr field s = (case field s of None \<Rightarrow> (Inl AttributeError, s) | Some h \<Rightarrow> (Inr (), s))"

text \<open>\<open>bytearray(xs)\<close> raises \<open>ValueError\<close> unless every element is in \<open>range(256)\<close>.\<close>

definition bytearray :: "nat list \<Rightarrow> 'w demo \<Rightarrow> (exn + nat list) \<times> 'w demo" where
  "bytearray xs s = (if list_all (\<lambda>b. b < 256) xs then (Inr xs, s) else (Inl ValueError, s))"

section \<open>Connection management\<close>

definition connect :: "'w extern \<Rightarrow> 'w demo \<Rightarrow> bool \<times> 'w demo" where
  "connect x =
     try_except
       (and_then (extcall CwScope (\<lambda>_. Returns) (cw_scope x)) (\<lambda>_.
        and_then (\<lambda>s. ret () (s\<lparr>scope := Some Handle\<rparr>)) (\<lambda>_.
        and_then (extcall CwTarget (\<lambda>_. Returns) (cw_target x)) (\<lambda>_.
        and_then (\<lambda>s. ret () (s\<lparr>target := Some Handle\<rparr>)) (\<lambda>_.
        and_then (attr scope) (\<lambda>_.
        and_then (extcall DefaultSetup (\<lambda>_. Returns) (default_setup x)) (\<lambda>_.
        and_then (\<lambda>s. ret () (s\<lparr>connected := True\<rparr>)) (\<lambda>_.
        ret True))))))))
       False"

definition disconnect :: "'w extern \<Rightarrow> 'w demo \<Rightarrow> unit \<times> 'w demo" where
  "disconnect x =
     try_except
       (and_then (\<lambda>s. if scope s \<noteq> None then extcall ScopeDis (\<lambda>_. Returns) (scope_dis x) s
                       else ret () s) (\<lambda>_.
        and_then (\<lambda>s. if target s \<noteq> None then extcall TargetDis (\<lambda>_. Returns) (target_dis x) s
                       else ret () s) (\<lambda>_.
        ret ())))
       ()"

section \<open>Communication probe\<close>

definition test_target_communication :: "'w extern \<Rightarrow> 'w demo \<Rightarrow> bool \<times> 'w demo" where
  "test_target_communication x =
     try_except
       (and_then (attr target) (\<lambda>_.
        and_then (extcall TargetFlush (\<lambda>_. Returns) (target_flush x)) (\<lambda>_.
        and_then (attr target) (\<lambda>_.
        and_then (bytearray (replicate 16 170)) (\<lambda>payload.
        and_then (extcall (SimpleserialWrite CHR ''p'' payload) (\<lambda>_. Returns)
                    (simpleserial_write x CHR ''p'' payload)) (\<lambda>_.
        and_then (extcall (TimeSleep (2 / 10)) (\<lambda>_. Returns) (time_sleep x (2 / 10))) (\<lambda>_.
        and_then (attr target) (\<lambda>_.
        and_then (extcall TargetRead ReturnsBytes (target_read x)) (\<lambda>response.
        if response \<noteq> [] then ret True else ret False)))))))))
       False"

section \<open>Trace capture\<close>

definition capture_real_trace ::
  "'w extern \<Rightarrow> nat list \<Rightarrow> 'w demo \<Rightarrow> trace option \<times> 'w demo" where
  "capture_real_trace x input_data s =
     (case try_except
             (and_then (attr scope) (\<lambda>_.
              and_then (extcall ScopeArm (\<lambda>_. Returns) (scope_arm x)) (\<lambda>_.
              and_then (attr target) (\<lambda>_.
              and_then (bytearray input_data) (\<lambda>payload.
              and_then (extcall (SimpleserialWrite CHR ''p'' payload) (\<lambda>_. Returns)
                          (simpleserial_write x CHR ''p'' payload)) (\<lambda>_.
              and_then (attr scope) (\<lambda>_.
              and_then (extcall ScopeCapture (\<lambda>_. Returns) (scope_capture x)) (\<lambda>_.
              and_then (attr scope) (\<lambda>_.
              extcall GetLastTrace ReturnsTrace (get_last_trace x))))))))))
             None s of
        (r, s') \<Rightarrow> (r, s'\<lparr>capture_log := capture_log s' @ [(input_data, r)]\<rparr>))"

text \<open>
  The loop body of \<open>capture_multiple_traces\<close>. After appending a trace the script prints
  \<open>np.min(trace)\<close>, \<open>np.max(trace)\<close>, \<open>np.mean(trace)\<close> and \<open>np.std(trace)\<close>;
  \<open>np.min\<close> of a zero-size array raises \<open>ValueError\<close>, which nothing catches.
\<close>

fun capture_loop :: "'w extern \<Rightarrow> nat list \<Rightarrow> 'w demo \<Rightarrow> (exn + unit) \<times> 'w demo" where
  "capture_loop x [] s = (Inr (), s)"
| "capture_loop x (i # rest) s =
     (case capture_real_trace x (replicate 16 (i mod 256)) s of
        (None, s1) \<Rightarrow> capture_loop x rest s1
      | (Some trace, s1) \<Rightarrow>
          (let s2 = s1\<lparr>traces := traces s1 @ [trace]\<rparr>
           in if trace = [] then (Inl ValueError, s2) else capture_loop x rest s2))"

definition capture_multiple_traces ::
  "'w extern \<Rightarrow> nat \<Rightarrow> 'w demo \<Rightarrow> (exn + bool) \<times> 'w demo" where
  "capture_multiple_traces x num_traces s =
     and_then (capture_loop x [0..<num_traces]) (\<lambda>_ s'. ret (0 < length (traces s')) s')
       (s\<lparr>traces := []\<rparr>)"

section \<open>numpy, in exact arithmetic\<close>

text \<open>
  \<open>np.array\<close> of a list of traces of different lengths raises \<open>ValueError\<close>
  (an inhomogeneous shape); otherwise it is the two-dimensional array itself.
\<close>

definition np_array :: "trace list \<Rightarrow> 'w demo \<Rightarrow> (exn + trace list) \<times> 'w demo" where
  "np_array ts s =
     (if list_all (\<lambda>t. length t = length (hd ts)) ts then (Inr ts, s) else (Inl ValueError, s))"

definition mean :: "real list \<Rightarrow> real" where
  "mean xs = sum_list xs / real (length xs)"

definition var :: "real list \<Rightarrow> real" where
  "var xs = mean (map (\<lambda>v. (v - mean xs)\<^sup>2) xs)"

definition column :: "trace list \<Rightarrow> nat \<Rightarrow> real list" where
  "column ts i = map (\<lambda>t. t ! i) ts"

text \<open>The reductions along \<open>axis=0\<close> of a rectangular array with at least one row.\<close>

definition np_mean_axis0 :: "trace list \<Rightarrow> real list" where
  "np_mean_axis0 ts = map (\<lambda>i. mean (column ts i)) [0..<length (hd ts)]"

definition np_var_axis0 :: "trace list \<Rightarrow> real list" where
  "np_var_axis0 ts = map (\<lambda>i. var (column ts i)) [0..<length (hd ts)]"

definition np_std_axis0 :: "trace list \<Rightarrow> real list" where
  "np_std_axis0 ts = map (\<lambda>i. sqrt (var (column ts i))) [0..<length (hd ts)]"

text \<open>\<open>np.mean\<close> of a one-dimensional array: \<open>NaN\<close> (with a warning) when it is empty.\<close>

definition np_mean :: "real list \<Rightarrow> npfloat" where
  "np_mean xs = (if xs = [] then NaN else Fin (mean xs))"

text \<open>\<open>np.max\<close> and \<open>np.min\<close> raise \<open>ValueError\<close> on a zero-size array.\<close>

definition np_max :: "real list \<Rightarrow> 'w demo \<Rightarrow> (exn + real) \<times> 'w demo" where
  "np_max xs s = (if xs = [] then (Inl ValueError, s) else (Inr (fold max xs (hd xs)), s))"

definition np_min :: "real list \<Rightarrow> 'w demo \<Rightarrow> (exn + real) \<times> 'w demo" where
  "np_min xs s = (if xs = [] then (Inl ValueError, s) else (Inr (fold min xs (hd xs)), s))"

fun np_times :: "npfloat \<Rightarrow> real \<Rightarrow> npfloat" where
  "np_times (Fin a) c = Fin (a * c)"
| "np_times NaN c = NaN"

text \<open>A comparison with \<open>NaN\<close> is false.\<close>

fun np_greater :: "real \<Rightarrow> npfloat \<Rightarrow> bool" where
  "np_greater v (Fin t) = (t < v)"
| "np_greater v NaN = False"

text \<open>\<open>np.where(variance > threshold)[0]\<close>: the indices where the condition holds,
  in increasing order.\<close>

definition np_where_greater :: "real list \<Rightarrow> npfloat \<Rightarrow> nat list" where
  "np_where_greater vs threshold = filter (\<lambda>i. np_greater (vs ! i) threshold) [0..<length vs]"

text \<open>
  \<open>np.corrcoef(x, y)[0,1]\<close> for two traces of the same length \<open>m \<ge> 1\<close>: the
  covariance matrix (normalised by \<open>m - 1\<close>) divided by the two standard deviations and
  clipped to \<open>[-1, 1]\<close>. With \<open>m = 1\<close>, or when one of the traces is constant, numpy
  divides zero by zero and the entry is \<open>NaN\<close>; it warns and does not raise. This is
  the value in exact arithmetic: in binary64 the rounded mean of a constant trace need not
  be the constant, and then the quotient is not \<open>0 / 0\<close>.
\<close>

definition dot :: "real list \<Rightarrow> real list \<Rightarrow> real" where
  "dot xs ys = sum_list (map (\<lambda>(a, b). a * b) (zip xs ys))"

definition np_corrcoef01 :: "trace \<Rightarrow> trace \<Rightarrow> npfloat" where
  "np_corrcoef01 x y =
     (let m = length x;
          dx = map (\<lambda>v. v - mean x) x;
          dy = map (\<lambda>v. v - mean y) y;
          cxx = dot dx dx / (real m - 1);
          cyy = dot dy dy / (real m - 1);
          cxy = dot dx dy / (real m - 1)
      in if m < 2 \<or> cxx = 0 \<or> cyy = 0 then NaN
         else Fin (max (- 1) (min 1 (cxy / sqrt cxx / sqrt cyy))))"

text \<open>\<open>np.mean\<close> of a non-empty list of floats: \<open>NaN\<close> as soon as one of them is.\<close>

fun the_fin :: "npfloat \<Rightarrow> real" where
  "the_fin (Fin a) = a"
| "the_fin NaN = 0"

definition np_mean_floats :: "npfloat list \<Rightarrow> npfloat" where
  "np_mean_floats cs = (if cs = [] \<or> NaN \<in> set cs then NaN else Fin (mean (map the_fin cs)))"

section \<open>Analysis\<close>

record analysis =
  num_traces :: nat
  trace_length :: nat
  max_power :: real
  min_power :: real
  power_range :: real
  interesting_points :: nat
  avg_correlation :: npfloat
  mean_trace :: "real list"
  std_trace :: "real list"
  variance :: "real list"

text \<open>The nested loop over \<open>i\<close> and \<open>j > i\<close>, in the order the script visits the pairs.\<close>

definition pairs :: "nat \<Rightarrow> (nat \<times> nat) list" where
  "pairs n = concat (map (\<lambda>i. map (\<lambda>j. (i, j)) [Suc i..<n]) [0..<n])"

definition correlate :: "trace list \<Rightarrow> 'w demo \<Rightarrow> (exn + npfloat list) \<times> 'w demo" where
  "correlate ts s =
     (Inr (map (\<lambda>(i, j). np_corrcoef01 (ts ! i) (ts ! j)) (pairs (length ts))),
      s\<lparr>io_log := io_log s @
           map (\<lambda>(i, j). (NpCorrcoef i j, ReturnsFloat (np_corrcoef01 (ts ! i) (ts ! j))))
             (pairs (length ts))\<rparr>)"

text \<open>Lines 120 to 122 of the script (and again 195 to 197): the sample indices whose
  variance across the traces exceeds one and a half times the mean variance.\<close>

definition interesting :: "trace list \<Rightarrow> nat list" where
  "interesting trace_array =
     (let variance = np_var_axis0 trace_array;
          mean_variance = np_mean variance
      in np_where_greater variance (np_times mean_variance 1.5))"

text \<open>The value \<open>None\<close> stands for the return value \<open>False\<close> of the script.\<close>

definition analyze_traces :: "'w demo \<Rightarrow> (exn + analysis option) \<times> 'w demo" where
  "analyze_traces s =
     (if traces s = [] then (Inr None, s)
      else
        and_then (np_array (traces s)) (\<lambda>trace_array.
        let mean_trace = np_mean_axis0 trace_array;
            std_trace = np_std_axis0 trace_array
        in
        and_then (np_max mean_trace) (\<lambda>max_power.
        and_then (np_min mean_trace) (\<lambda>min_power.
        let variance = np_var_axis0 trace_array;
            interesting_points = interesting trace_array
        in
        and_then (if 1 < length (traces s)
                  then and_then (correlate (traces s)) (\<lambda>correlations.
                         ret (if correlations \<noteq> [] then np_mean_floats correlations else Fin 0))
                  else ret (Fin 0)) (\<lambda>avg_correlation.
        ret (Some \<lparr>num_traces = length (traces s),
                    trace_length = length mean_trace,
                    max_power = max_power,
                    min_power = min_power,
                    power_range = max_power - min_power,
                    interesting_points = length interesting_points,
                    avg_correlation = avg_correlation,
                    mean_trace = mean_trace,
                    std_trace = std_trace,
                    variance = variance\<rparr>))))) s)"

section \<open>Visualization\<close>

text \<open>
  The matplotlib calls are grouped into three external calls, in the order of the script:
  the first chart with at most five traces, the second chart (with the statistics when
  there are at least two traces), and \<open>savefig\<close>. Between the first two the script
  evaluates \<open>np.array(self.traces)\<close>, which may raise.
\<close>

definition statistics :: "trace list \<Rightarrow> 'w demo \<Rightarrow> (exn + statistics_chart option) \<times> 'w demo" where
  "statistics ts =
     (if 1 < length ts
      then and_then (np_array ts) (\<lambda>trace_array.
             ret (Some \<lparr>chart_mean = np_mean_axis0 trace_array,
                         chart_std = np_std_axis0 trace_array,
                         chart_points = interesting trace_array\<rparr>))
      else ret None)"

definition generate_plot :: "'w extern \<Rightarrow> string \<Rightarrow> 'w demo \<Rightarrow> (exn + bool) \<times> 'w demo" where
  "generate_plot x save_path s =
     (if traces s = [] then (Inr False, s)
      else
        and_then (extcall (PlotTraces (take 5 (traces s))) (\<lambda>_. Returns)
                    (plot_traces x (take 5 (traces s)))) (\<lambda>_.
        and_then (statistics (traces s)) (\<lambda>chart.
        and_then (extcall (PlotStatistics chart) (\<lambda>_. Returns) (plot_statistics x chart)) (\<lambda>_.
        and_then (extcall (SaveFigure save_path) (\<lambda>_. Returns) (save_figure x save_path)) (\<lambda>_.
        ret True)))) s)"

section \<open>The top-level sequence\<close>




section \<open>A bench device for concrete runs\<close>

text \<open>
  A device on which every call succeeds, except that \<open>cw.scope()\<close> raises when the
  device is offline and \<open>target.dis()\<close> always raises. The world counts the waveforms
  read so far, and \<open>wave k\<close> is the reply to the \<open>k\<close>-th \<open>get_last_trace\<close>.
\<close>

definition bench_device :: "bool \<Rightarrow> string \<Rightarrow> (nat \<Rightarrow> exn + trace option) \<Rightarrow> nat extern" where
  "bench_device online response wave =
     \<lparr>cw_scope = (\<lambda>w. (if online then Inr () else Inl (LibraryError 1), w)),
      cw_target = (\<lambda>w. (Inr (), w)),
      default_setup = (\<lambda>w. (Inr (), w)),
      target_flush = (\<lambda>w. (Inr (), w)),
      simpleserial_write = (\<lambda>c d w. (Inr (), w)),
      time_sleep = (\<lambda>t w. (Inr (), w)),
      target_read = (\<lambda>w. (Inr response, w)),
      scope_arm = (\<lambda>w. (Inr (), w)),
      scope_capture = (\<lambda>w. (Inr (), w)),
      get_last_trace = (\<lambda>w. (wave w, Suc w)),
      scope_dis = (\<lambda>w. (Inr (), w)),
      target_dis = (\<lambda>w. (Inl (LibraryError 3), w)),
      plot_traces = (\<lambda>ts w. (Inr (), w)),
      plot_statistics = (\<lambda>c w. (Inr (), w)),
      save_figure = (\<lambda>p w. (Inr (), w))\<rparr>"

text \<open>The demo object after a successful \<open>connect\<close>, with empty logs.\<close>

definition bench_demo :: "'w \<Rightarrow> 'w demo" where
  "bench_demo w = (init w)\<lparr>scope := Some Handle, target := Some Handle, connected := True\<rparr>"

text \<open>A demo object that holds the given trace set and nothing else.\<close>

definition stored :: "trace list \<Rightarrow> nat demo" where
  "stored ts = (init 0)\<lparr>traces := ts\<rparr>"

definition bench_wave :: "nat \<Rightarrow> exn + trace option" where
  "bench_wave k = (if k = 1 then Inr None else Inr (Some [1, 2 + real k]))"

definition fixed_wave :: "trace \<Rightarrow> nat \<Rightarrow> exn + trace option" where
  "fixed_wave t k = Inr (Some t)"

text \<open>The square root has no executable code equation. Without the default equation of
  \<open>root\<close> the evaluation of concrete runs leaves square roots as they are.\<close>

declare root_def [code del]

section \<open>Sequencing lemmas\<close>

lemma and_then_keeps:
  assumes "\<And>s. g (snd (m s)) = g s" and "\<And>a s. g (snd (f a s)) = g s"
  shows "g (snd (and_then m f s)) = g s"
proof (cases "m s")
  case (Pair r s')
  then have "g s' = g s" using assms(1) [of s] by simp
  then show ?thesis using Pair assms(2) by (cases r) (simp_all add: and_then_def)
qed

lemma try_except_keeps:
  assumes "\<And>s. g (snd (m s)) = g s"
  shows "g (snd (try_except m h s)) = g s"
proof (cases "m s")
  case (Pair r s')
  then have "g s' = g s" using assms [of s] by simp
  then show ?thesis using Pair by (cases r) (simp_all add: try_except_def)
qed

lemma ret_keeps: "g (snd (ret a s)) = g s"
  by (simp add: ret_def)

lemma attr_keeps: "g (snd (attr field s)) = g s"
  by (simp add: attr_def split: option.splits)

lemma bytearray_keeps: "g (snd (bytearray xs s)) = g s"
  by (simp add: bytearray_def)

lemma extcall_keeps:
  assumes "\<And>w l. g (s\<lparr>world := w, io_log := l\<rparr>) = g s"
  shows "g (snd (extcall c shw f s)) = g s"
  using assms by (simp add: extcall_def split: prod.splits)

lemma and_then_yield:
  assumes "and_then m f s = (Inr r, s')"
    and "\<And>a s1. f a s1 = (Inr r, s') \<Longrightarrow> P"
  shows P
  using assms by (auto simp: and_then_def split: prod.splits sum.splits)

lemma extcall_yield: "extcall c shw f s = (Inr r, s') \<Longrightarrow> fst (f (world s)) = Inr r"
  by (auto simp: extcall_def split: prod.splits)

section \<open>Properties of the communication probe\<close>

lemma probe_payload_is_bytes: "list_all (\<lambda>b. b < 256) (replicate 16 (170::nat))"
  by (simp add: list_all_iff)

text \<open>
  C9. \<open>test_target_communication\<close> never raises (its result is a boolean). The external
  calls it makes are an initial part of: flush, write of command \<open>p\<close> with sixteen bytes
  \<open>0xAA\<close>, sleep of 0.2 seconds, read, in this order. It returns true exactly when a
  response was read and is not empty; when any call raises, it returns false. With a target
  handle and no call raising, all four calls are made.
\<close>

theorem probe_spec:
  "case test_target_communication x s of
     (ok, s') \<Rightarrow>
       (\<exists>new. io_log s' = io_log s @ new \<and>
          prefix (map fst new)
            [TargetFlush, SimpleserialWrite CHR ''p'' (replicate 16 170), TimeSleep (2 / 10),
             TargetRead] \<and>
          (ok \<longleftrightarrow> (\<exists>response. (TargetRead, ReturnsBytes response) \<in> set new \<and> response \<noteq> [])) \<and>
          ((\<exists>c e. (c, Raises e) \<in> set new) \<longrightarrow> \<not> ok) \<and>
          (target s \<noteq> None \<and> (\<forall>c e. (c, Raises e) \<notin> set new) \<longrightarrow>
             map fst new =
               [TargetFlush, SimpleserialWrite CHR ''p'' (replicate 16 170), TimeSleep (2 / 10),
                TargetRead]))"
  unfolding test_target_communication_def try_except_def and_then_def extcall_def attr_def
    bytearray_def ret_def
  using probe_payload_is_bytes
  by (auto split: prod.splits sum.splits option.splits simp del: replicate.simps)

theorem probe_spec_witness:
  "test_target_communication (bench_device True ''ok'' bench_wave) (bench_demo 0) =
     (True, (bench_demo 0)\<lparr>io_log :=
        [(TargetFlush, Returns), (SimpleserialWrite CHR ''p'' (replicate 16 170), Returns),
         (TimeSleep (2 / 10), Returns), (TargetRead, ReturnsBytes ''ok'')]\<rparr>) \<and>
   fst (test_target_communication (bench_device True [] bench_wave) (bench_demo 0)) = False \<and>
   test_target_communication (bench_device True ''ok'' bench_wave) (init 0) = (False, init 0) \<and>
   prefix (map fst (io_log (snd (test_target_communication (bench_device True [] bench_wave) (bench_demo 0)))))
     [TargetFlush, SimpleserialWrite CHR ''p'' (replicate 16 170), TimeSleep (2 / 10), TargetRead]"
proof -
  have c: "test_target_communication (bench_device True ''ok'' bench_wave) (bench_demo 0) =
     (True, (bench_demo 0)\<lparr>io_log :=
        [(TargetFlush, Returns), (SimpleserialWrite CHR ''p'' (replicate 16 170), Returns),
         (TimeSleep (2 / 10), Returns), (TargetRead, ReturnsBytes ''ok'')]\<rparr>) \<and>
   fst (test_target_communication (bench_device True [] bench_wave) (bench_demo 0)) = False \<and>
   test_target_communication (bench_device True ''ok'' bench_wave) (init 0) = (False, init 0)"
    by code_simp
  have e: "io_log (bench_demo (0::nat)) = []"
    by (simp add: bench_demo_def init_def)
  have "prefix (map fst (io_log (snd (test_target_communication (bench_device True [] bench_wave) (bench_demo 0)))))
     [TargetFlush, SimpleserialWrite CHR ''p'' (replicate 16 170), TimeSleep (2 / 10), TargetRead]"
    using probe_spec [where x = "bench_device True [] bench_wave" and s = "bench_demo 0"] e
    by (auto split: prod.splits)
  with c show ?thesis by blast
qed

section \<open>Properties of the capture loop\<close>

lemma capture_real_trace_keeps:
  assumes "\<And>s w l. g (s\<lparr>world := w, io_log := l\<rparr>) = g s"
    and "\<And>s l. g (s\<lparr>capture_log := l\<rparr>) = g s"
  shows "g (snd (capture_real_trace x p s)) = g s"
proof -
  define body where "body =
             (and_then (attr scope) (\<lambda>_.
              and_then (extcall ScopeArm (\<lambda>_. Returns) (scope_arm x)) (\<lambda>_.
              and_then (attr target) (\<lambda>_.
              and_then (bytearray p) (\<lambda>payload.
              and_then (extcall (SimpleserialWrite CHR ''p'' payload) (\<lambda>_. Returns)
                          (simpleserial_write x CHR ''p'' payload)) (\<lambda>_.
              and_then (attr scope) (\<lambda>_.
              and_then (extcall ScopeCapture (\<lambda>_. Returns) (scope_capture x)) (\<lambda>_.
              and_then (attr scope) (\<lambda>_.
              extcall GetLastTrace ReturnsTrace (get_last_trace x))))))))))"
  obtain r s1 where e: "try_except body None s = (r, s1)"
    by (cases "try_except body None s")
  have "g (snd (try_except body None s)) = g s"
    unfolding body_def
    by (intro try_except_keeps and_then_keeps extcall_keeps attr_keeps bytearray_keeps assms(1))
  with e have "g s1 = g s" by simp
  moreover have "capture_real_trace x p s = (r, s1\<lparr>capture_log := capture_log s1 @ [(p, r)]\<rparr>)"
    using e by (simp add: capture_real_trace_def body_def)
  ultimately show ?thesis by (simp add: assms(2))
qed

lemma capture_real_trace_result:
  assumes "capture_real_trace x p s = (r, s')"
  shows "capture_log s' = capture_log s @ [(p, r)]" and "traces s' = traces s"
    and "step_log s' = step_log s" and "scope s' = scope s" and "target s' = target s"
    and "r = None \<or> (\<exists>w. fst (get_last_trace x w) = Inr r)"
proof -
  show "traces s' = traces s"
    using capture_real_trace_keeps [of traces x p s] assms by simp
  show "step_log s' = step_log s"
    using capture_real_trace_keeps [of step_log x p s] assms by simp
  show "scope s' = scope s"
    using capture_real_trace_keeps [of scope x p s] assms by simp
  show "target s' = target s"
    using capture_real_trace_keeps [of target x p s] assms by simp
  define body where "body =
             (and_then (attr scope) (\<lambda>_.
              and_then (extcall ScopeArm (\<lambda>_. Returns) (scope_arm x)) (\<lambda>_.
              and_then (attr target) (\<lambda>_.
              and_then (bytearray p) (\<lambda>payload.
              and_then (extcall (SimpleserialWrite CHR ''p'' payload) (\<lambda>_. Returns)
                          (simpleserial_write x CHR ''p'' payload)) (\<lambda>_.
              and_then (attr scope) (\<lambda>_.
              and_then (extcall ScopeCapture (\<lambda>_. Returns) (scope_capture x)) (\<lambda>_.
              and_then (attr scope) (\<lambda>_.
              extcall GetLastTrace ReturnsTrace (get_last_trace x))))))))))"
  have keeps: "capture_log (snd (try_except body None s)) = capture_log s"
    unfolding body_def
    by (intro try_except_keeps and_then_keeps extcall_keeps attr_keeps bytearray_keeps) simp_all
  have crt: "capture_real_trace x p s =
      (case try_except body None s of
        (r, s') \<Rightarrow> (r, s'\<lparr>capture_log := capture_log s' @ [(p, r)]\<rparr>))"
    by (simp add: capture_real_trace_def body_def)
  show "capture_log s' = capture_log s @ [(p, r)]"
    using assms keeps unfolding crt by (auto split: prod.splits)
  have yield: "\<exists>w. fst (get_last_trace x w) = Inr r0" if "body s = (Inr r0, s0)" for r0 s0
    using that unfolding body_def
    by (elim and_then_yield) (auto dest: extcall_yield)
  show "r = None \<or> (\<exists>w. fst (get_last_trace x w) = Inr r)"
    using assms yield unfolding crt try_except_def
    by (auto split: prod.splits sum.splits)
qed

lemma capture_loop_log:
  "capture_loop x js s = (r, s') \<Longrightarrow>
     \<exists>results. length results \<le> length js \<and>
       capture_log s' = capture_log s @ zip (map (\<lambda>i. replicate 16 (i mod 256)) js) results \<and>
       traces s' = traces s @ List.map_filter (\<lambda>r. r) results \<and>
       step_log s' = step_log s \<and> scope s' = scope s \<and> target s' = target s \<and>
       (\<forall>t. Some t \<in> set results \<longrightarrow> (\<exists>w. fst (get_last_trace x w) = Inr (Some t))) \<and>
       (case r of Inr u \<Rightarrow> length results = length js \<and> Some [] \<notin> set results
                | Inl e \<Rightarrow> e = ValueError \<and> Some [] \<in> set results)"
proof (induction js arbitrary: s)
  case Nil
  then show ?case by (intro exI [of _ "[]"]) auto
next
  case (Cons i rest)
  obtain r1 s1 where c: "capture_real_trace x (replicate 16 (i mod 256)) s = (r1, s1)"
    by (cases "capture_real_trace x (replicate 16 (i mod 256)) s")
  note f = capture_real_trace_result [OF c]
  show ?case
  proof (cases r1)
    case None
    with Cons.prems c have "capture_loop x rest s1 = (r, s')" by simp
    from Cons.IH [OF this] obtain results where
      r: "length results \<le> length rest"
        "capture_log s' = capture_log s1 @ zip (map (\<lambda>i. replicate 16 (i mod 256)) rest) results"
        "traces s' = traces s1 @ List.map_filter (\<lambda>r. r) results"
        "step_log s' = step_log s1" "scope s' = scope s1" "target s' = target s1"
        "\<forall>t. Some t \<in> set results \<longrightarrow> (\<exists>w. fst (get_last_trace x w) = Inr (Some t))"
        "case r of Inr u \<Rightarrow> length results = length rest \<and> Some [] \<notin> set results
                | Inl e \<Rightarrow> e = ValueError \<and> Some [] \<in> set results"
      by blast
    show ?thesis
      using r f None
      by (intro exI [of _ "None # results"]) (auto split: sum.splits)
  next
    case (Some t)
    show ?thesis
    proof (cases "t = []")
      case True
      with Cons.prems c Some have "r = Inl ValueError" "s' = s1\<lparr>traces := traces s1 @ [t]\<rparr>"
        by (simp_all add: Let_def)
      then show ?thesis
        using f Some True
        by (intro exI [of _ "[Some []]"]) auto
    next
      case False
      with Cons.prems c Some have "capture_loop x rest (s1\<lparr>traces := traces s1 @ [t]\<rparr>) = (r, s')"
        by (simp add: Let_def)
      from Cons.IH [OF this] obtain results where
        r: "length results \<le> length rest"
          "capture_log s' = capture_log s1 @ zip (map (\<lambda>i. replicate 16 (i mod 256)) rest) results"
          "traces s' = traces s1 @ [t] @ List.map_filter (\<lambda>r. r) results"
          "step_log s' = step_log s1" "scope s' = scope s1" "target s' = target s1"
          "\<forall>t. Some t \<in> set results \<longrightarrow> (\<exists>w. fst (get_last_trace x w) = Inr (Some t))"
          "case r of Inr u \<Rightarrow> length results = length rest \<and> Some [] \<notin> set results
                  | Inl e \<Rightarrow> e = ValueError \<and> Some [] \<in> set results"
        by auto
      show ?thesis
        using r f Some False
        by (intro exI [of _ "Some t # results"]) (auto split: sum.splits)
    qed
  qed
qed

lemma map_filter_nonempty:
  "List.map_filter (\<lambda>r. r) rs \<noteq> [] \<longleftrightarrow> (\<exists>t. Some t \<in> set rs)"
proof (induction rs)
  case Nil
  then show ?case by simp
next
  case (Cons r rs)
  then show ?case by (cases r) auto
qed


text \<open>
  C1, as amended. Provided the scope never delivers a zero-sample trace,
  \<open>capture_multiple_traces n\<close> returns, after exactly \<open>n\<close> calls of
  \<open>capture_real_trace\<close>, the \<open>i\<close>-th with the payload of sixteen bytes \<open>i mod 256\<close>;
  the trace set is the list of the successful results in iteration order, and the return
  value is true exactly when one of the captures succeeded.
\<close>

theorem capture_multiple_traces_spec:
  assumes "\<And>w. fst (get_last_trace x w) \<noteq> Inr (Some [])"
  shows "\<exists>results s'.
           capture_multiple_traces x n s = (Inr (\<exists>t. Some t \<in> set results), s') \<and>
           length results = n \<and>
           capture_log s' = capture_log s @ zip (map (\<lambda>i. replicate 16 (i mod 256)) [0..<n]) results \<and>
           traces s' = List.map_filter (\<lambda>r. r) results"
proof -
  obtain r s' where l: "capture_loop x [0..<n] (s\<lparr>traces := []\<rparr>) = (r, s')"
    by (cases "capture_loop x [0..<n] (s\<lparr>traces := []\<rparr>)")
  from capture_loop_log [OF l] obtain results where
    res: "capture_log s' = capture_log s @ zip (map (\<lambda>i. replicate 16 (i mod 256)) [0..<n]) results"
      "traces s' = List.map_filter (\<lambda>r. r) results"
      "\<forall>t. Some t \<in> set results \<longrightarrow> (\<exists>w. fst (get_last_trace x w) = Inr (Some t))"
      "case r of Inr u \<Rightarrow> length results = length [0..<n] \<and> Some [] \<notin> set results
              | Inl e \<Rightarrow> e = ValueError \<and> Some [] \<in> set results"
    by auto
  have "Some [] \<notin> set results"
    using res(3) assms by blast
  with res(4) have r: "r = Inr ()" "length results = n"
    by (cases r; simp)+
  have "capture_multiple_traces x n s = (Inr (0 < length (traces s')), s')"
    using l r by (simp add: capture_multiple_traces_def and_then_def ret_def)
  moreover have "(0 < length (traces s')) = (\<exists>t. Some t \<in> set results)"
    using res(2) by (simp add: map_filter_nonempty)
  ultimately show ?thesis
    using res(1,2) r(2) by (intro exI [of _ results] exI [of _ s']) simp
qed

theorem capture_multiple_traces_spec_witness:
  "(\<forall>w. fst (get_last_trace (bench_device True ''ok'' bench_wave) w) \<noteq> Inr (Some [])) \<and>
   fst (capture_multiple_traces (bench_device True ''ok'' bench_wave) 3 (bench_demo 0)) = Inr True \<and>
   traces (snd (capture_multiple_traces (bench_device True ''ok'' bench_wave) 3 (bench_demo 0)))
     = [[1, 2], [1, 4]] \<and>
   capture_log (snd (capture_multiple_traces (bench_device True ''ok'' bench_wave) 3 (bench_demo 0)))
     = [(replicate 16 0, Some [1, 2]), (replicate 16 1, None), (replicate 16 2, Some [1, 4])]"
proof -
  have h: "fst (get_last_trace (bench_device True ''ok'' bench_wave) w) \<noteq> Inr (Some [])" for w
    by (simp add: bench_device_def bench_wave_def)
  have c: "fst (capture_multiple_traces (bench_device True ''ok'' bench_wave) 3 (bench_demo 0)) = Inr True \<and>
   traces (snd (capture_multiple_traces (bench_device True ''ok'' bench_wave) 3 (bench_demo 0)))
     = [[1, 2], [1, 4]] \<and>
   capture_log (snd (capture_multiple_traces (bench_device True ''ok'' bench_wave) 3 (bench_demo 0)))
     = [(replicate 16 0, Some [1, 2]), (replicate 16 1, None), (replicate 16 2, Some [1, 4])]"
    by code_simp
  show ?thesis
    using h c capture_multiple_traces_spec [where x = "bench_device True ''ok'' bench_wave" and n = 3 and s = "bench_demo 0", OF h]
    by blast
qed

text \<open>
  C1 as stated fails: a zero-sample trace is appended, then \<open>np.min\<close> raises
  \<open>ValueError\<close> out of the loop. Of two requested captures only one is attempted.
\<close>

theorem capture_aborts_on_empty_trace:
  "fst (capture_multiple_traces (bench_device True ''ok'' (fixed_wave [])) 2 (bench_demo 0)) = Inl ValueError \<and>
   length (capture_log (snd (capture_multiple_traces (bench_device True ''ok'' (fixed_wave [])) 2 (bench_demo 0)))) = 1"
  by code_simp



section \<open>The empty trace set\<close>

text \<open>
  C2. On an empty trace set \<open>analyze_traces\<close> returns \<open>False\<close> (the value \<open>None\<close>
  of the model) and \<open>generate_plot\<close> returns \<open>False\<close>; neither raises, and neither
  changes the demo object or calls an external library.
\<close>

theorem empty_traceset_reports_failure:
  "traces s = [] \<Longrightarrow>
     analyze_traces s = (Inr None, s) \<and> generate_plot x save_path s = (Inr False, s)"
  by (simp add: analyze_traces_def generate_plot_def)

theorem empty_traceset_reports_failure_witness:
  "traces (init (0::nat)) = [] \<and>
   analyze_traces (init (0::nat)) = (Inr None, init 0) \<and>
   generate_plot (bench_device True ''ok'' bench_wave) ''real_chipwhisperer_demo.png'' (init 0)
     = (Inr False, init 0)"
proof -
  have h: "traces (init (0::nat)) = []" by (simp add: init_def)
  show ?thesis
    using h empty_traceset_reports_failure [OF h, where x = "bench_device True ''ok'' bench_wave"
        and save_path = "''real_chipwhisperer_demo.png''"]
    by simp
qed

section \<open>What each operation leaves unchanged\<close>

lemma connect_keeps:
  assumes "\<And>s w l. g (s\<lparr>world := w, io_log := l\<rparr>) = g s"
    and "\<And>s h. g (s\<lparr>scope := h\<rparr>) = g s"
    and "\<And>s h. g (s\<lparr>target := h\<rparr>) = g s"
    and "\<And>s b. g (s\<lparr>connected := b\<rparr>) = g s"
  shows "g (snd (connect x s)) = g s"
  unfolding connect_def
  by (intro try_except_keeps and_then_keeps extcall_keeps attr_keeps ret_keeps)
     (simp_all add: ret_def assms)

lemma disconnect_keeps:
  assumes "\<And>s w l. g (s\<lparr>world := w, io_log := l\<rparr>) = g s"
  shows "g (snd (disconnect x s)) = g s"
  unfolding disconnect_def
  by (intro try_except_keeps and_then_keeps ret_keeps)
     (simp_all add: ret_def extcall_keeps assms)

lemma probe_keeps:
  assumes "\<And>s w l. g (s\<lparr>world := w, io_log := l\<rparr>) = g s"
  shows "g (snd (test_target_communication x s)) = g s"
  unfolding test_target_communication_def
  by (intro try_except_keeps and_then_keeps extcall_keeps attr_keeps bytearray_keeps ret_keeps)
     (simp_all add: ret_def assms)

lemma np_array_keeps: "g (snd (np_array ts s)) = g s"
  by (simp add: np_array_def)

lemma np_max_keeps: "g (snd (np_max xs s)) = g s"
  by (simp add: np_max_def)

lemma np_min_keeps: "g (snd (np_min xs s)) = g s"
  by (simp add: np_min_def)

lemma correlate_keeps:
  assumes "\<And>s l. g (s\<lparr>io_log := l\<rparr>) = g s"
  shows "g (snd (correlate ts s)) = g s"
  by (simp add: correlate_def assms)

lemma analyze_traces_keeps:
  assumes "\<And>s l. g (s\<lparr>io_log := l\<rparr>) = g s"
  shows "g (snd (analyze_traces s)) = g s"
  by (simp add: analyze_traces_def and_then_def np_array_def np_max_def np_min_def correlate_def
        ret_def Let_def assms del: One_nat_def)

lemma statistics_keeps: "g (snd (statistics ts s)) = g s"
  unfolding statistics_def
  by (simp add: and_then_keeps np_array_keeps ret_keeps del: One_nat_def)

lemma generate_plot_keeps:
  assumes "\<And>s w l. g (s\<lparr>world := w, io_log := l\<rparr>) = g s"
  shows "g (snd (generate_plot x path s)) = g s"
proof (cases "traces s = []")
  case True
  then show ?thesis by (simp add: generate_plot_def)
next
  case False
  have "g (snd ((and_then (extcall (PlotTraces (take 5 (traces s))) (\<lambda>_. Returns)
                    (plot_traces x (take 5 (traces s)))) (\<lambda>_.
        and_then (statistics (traces s)) (\<lambda>chart.
        and_then (extcall (PlotStatistics chart) (\<lambda>_. Returns) (plot_statistics x chart)) (\<lambda>_.
        and_then (extcall (SaveFigure path) (\<lambda>_. Returns) (save_figure x path)) (\<lambda>_.
        ret True))))) s)) = g s"
    by (intro and_then_keeps extcall_keeps statistics_keeps ret_keeps assms)
  with False show ?thesis
    by (simp add: generate_plot_def)
qed

lemma capture_loop_prefix: "prefix (traces s) (traces (snd (capture_loop x js s)))"
proof -
  obtain r s' where l: "capture_loop x js s = (r, s')"
    by (cases "capture_loop x js s")
  from capture_loop_log [OF l] show ?thesis
    using l by auto
qed

text \<open>
  C8, as amended. \<open>connect\<close>, \<open>test_target_communication\<close>, \<open>capture_real_trace\<close>,
  \<open>analyze_traces\<close>, \<open>generate_plot\<close> and \<open>disconnect\<close> leave the trace set as it is;
  the capture loop only appends to it; \<open>capture_multiple_traces\<close> starts from the empty
  trace set whatever was stored before, and only appends from there.
\<close>

theorem traceset_only_grows:
  "traces (snd (connect x s)) = traces s \<and>
   traces (snd (test_target_communication x s)) = traces s \<and>
   traces (snd (capture_real_trace x input_data s)) = traces s \<and>
   traces (snd (analyze_traces s)) = traces s \<and>
   traces (snd (generate_plot x save_path s)) = traces s \<and>
   traces (snd (disconnect x s)) = traces s \<and>
   prefix (traces s) (traces (snd (capture_loop x js s))) \<and>
   capture_multiple_traces x n s = capture_multiple_traces x n (s\<lparr>traces := []\<rparr>)"
  by (simp add: connect_keeps probe_keeps capture_real_trace_keeps analyze_traces_keeps
        generate_plot_keeps disconnect_keeps capture_loop_prefix capture_multiple_traces_def)

theorem traceset_only_grows_witness:
  "traces (snd (capture_loop (bench_device True ''ok'' bench_wave) [0, 1, 2] (stored [[7, 7]])))
     = [[7, 7]] \<and>
   traces (snd (capture_loop (bench_device True ''ok'' bench_wave) [0, 1, 2]
                  ((bench_demo 0)\<lparr>traces := [[7, 7]]\<rparr>))) = [[7, 7], [1, 2], [1, 4]] \<and>
   traces (snd (analyze_traces (stored [[7, 7]]))) = [[7, 7]]"
proof -
  have c: "traces (snd (capture_loop (bench_device True ''ok'' bench_wave) [0, 1, 2] (stored [[7, 7]])))
     = [[7, 7]] \<and>
   traces (snd (capture_loop (bench_device True ''ok'' bench_wave) [0, 1, 2]
                  ((bench_demo 0)\<lparr>traces := [[7, 7]]\<rparr>))) = [[7, 7], [1, 2], [1, 4]]"
    by code_simp
  have "traces (snd (analyze_traces (stored [[7, 7]]))) = traces (stored [[7, 7]])"
    using traceset_only_grows [where s = "stored [[7, 7]]"] by blast
  then have "traces (snd (analyze_traces (stored [[7, 7]]))) = [[7, 7]]"
    by (simp add: stored_def)
  with c show ?thesis by blast
qed

text \<open>
  C8 as stated fails: \<open>capture_multiple_traces\<close> assigns \<open>self.traces = []\<close> before its
  loop, so a second capture run removes the traces stored by the first.
\<close>

theorem recapture_discards_stored_traces:
  "traces ((bench_demo 0)\<lparr>traces := [[1, 2]]\<rparr>) = [[1, 2]] \<and>
   traces (snd (capture_multiple_traces (bench_device True ''ok'' bench_wave) 0
                  ((bench_demo 0)\<lparr>traces := [[1, 2]]\<rparr>))) = []"
  by code_simp

section \<open>Properties of the top-level sequence\<close>





section \<open>Properties of the analysis\<close>

lemma np_mean_axis0_empty: "np_mean_axis0 ts = [] \<longleftrightarrow> hd ts = []"
  by (simp add: np_mean_axis0_def)

lemma analyze_traces_Some:
  assumes "analyze_traces s = (Inr (Some a), s')"
  shows "traces s \<noteq> []"
    and "list_all (\<lambda>t. length t = length (hd (traces s))) (traces s)"
    and "hd (traces s) \<noteq> []"
    and "interesting_points a = length (interesting (traces s))"
    and "length (traces s) = 1 \<Longrightarrow> avg_correlation a = Fin 0"
  using assms
  by (auto simp: analyze_traces_def and_then_def np_array_def np_max_def np_min_def ret_def
        correlate_def Let_def np_mean_axis0_empty split: if_splits simp del: One_nat_def)


lemma analyze_single_total:
  assumes "length (traces s) = 1" and "hd (traces s) \<noteq> []"
  shows "\<exists>a. analyze_traces s = (Inr (Some a), s)"
proof -
  obtain t where t: "traces s = [t]"
    using assms(1) by (cases "traces s") auto
  show ?thesis
    using assms(2) t
    by (simp add: analyze_traces_def and_then_def np_array_def np_max_def np_min_def ret_def
        Let_def np_mean_axis0_empty)
qed

lemma analyze_single_io_log:
  assumes "length (traces s) = 1"
  shows "io_log (snd (analyze_traces s)) = io_log s"
proof -
  obtain t where t: "traces s = [t]"
    using assms(1) by (cases "traces s") auto
  show ?thesis
    using t
    by (simp add: analyze_traces_def and_then_def np_array_def np_max_def np_min_def ret_def
        Let_def)
qed





text \<open>
  C10. For a trace set of exactly one trace, every result of \<open>analyze_traces\<close> has the
  average correlation 0 (not \<open>NaN\<close>), and the run records no call of \<open>np.corrcoef\<close>.
  A result is computed whenever the trace has at least one sample.
\<close>

theorem single_trace_correlation:
  assumes "length (traces s) = 1"
  shows "(\<forall>a s'. analyze_traces s = (Inr (Some a), s') \<longrightarrow> avg_correlation a = Fin 0) \<and>
         io_log (snd (analyze_traces s)) = io_log s \<and>
         (hd (traces s) \<noteq> [] \<longrightarrow> (\<exists>a. analyze_traces s = (Inr (Some a), s)))"
  using assms analyze_traces_Some(5) analyze_single_io_log analyze_single_total
  by blast

theorem single_trace_correlation_witness:
  "length (traces (stored [[1, 2, 3]])) = 1 \<and>
   map_option avg_correlation (projr (fst (analyze_traces (stored [[1, 2, 3]])))) = Some (Fin 0) \<and>
   io_log (snd (analyze_traces (stored [[1, 2, 3]]))) = []"
proof -
  have h: "length (traces (stored [[1, 2, 3]])) = 1"
    by (simp add: stored_def)
  have c: "map_option avg_correlation (projr (fst (analyze_traces (stored [[1, 2, 3]])))) = Some (Fin 0) \<and>
   io_log (snd (analyze_traces (stored [[1, 2, 3]]))) = []"
    by code_simp
  show ?thesis
    using h c single_trace_correlation [OF h]
    by blast
qed

subsection \<open>A single deviating sample\<close>










end
